theory Spec2Isabelle
  imports Complex_Main
begin

section \<open>Floating-point values and Python exceptions\<close>

text \<open>
  The program computes with numpy \<^verbatim>\<open>float64\<close> values. A value is modelled as a real
  number or one of the three IEEE special values. Rounding, overflow of finite results
  and the sign of zero are not modelled (every zero is \<open>+0\<close>); the special values
  follow IEEE 754 as numpy implements it (division by zero gives an infinity or NaN
  with a warning, it does not raise).
\<close>

datatype fval = NaN | PInf | NInf | Fin real

text \<open>
  Exceptions are identified by the built-in class they are an instance of
  (astropy's \<^verbatim>\<open>UnitConversionError\<close> is a subclass of \<^verbatim>\<open>ValueError\<close>).
  A \<^verbatim>\<open>NameError\<close> and an \<^verbatim>\<open>AttributeError\<close> carry the name that was not found.
\<close>

datatype pyerror =
    NameError string
  | AttributeError string
  | IndexError
  | ValueError
  | TypeError
  | IOError

fun isnan :: "fval \<Rightarrow> bool" where
  "isnan NaN = True"
| "isnan PInf = False"
| "isnan NInf = False"
| "isnan (Fin x) = False"

fun isinf :: "fval \<Rightarrow> bool" where
  "isinf NaN = False"
| "isinf PInf = True"
| "isinf NInf = True"
| "isinf (Fin x) = False"

fun isfinite :: "fval \<Rightarrow> bool" where
  "isfinite NaN = False"
| "isfinite PInf = False"
| "isfinite NInf = False"
| "isfinite (Fin x) = True"

fun fneg :: "fval \<Rightarrow> fval" where
  "fneg NaN = NaN"
| "fneg PInf = NInf"
| "fneg NInf = PInf"
| "fneg (Fin x) = Fin (- x)"

fun fadd :: "fval \<Rightarrow> fval \<Rightarrow> fval" where
  "fadd (Fin x) (Fin y) = Fin (x + y)"
| "fadd (Fin x) PInf = PInf"
| "fadd (Fin x) NInf = NInf"
| "fadd PInf (Fin y) = PInf"
| "fadd NInf (Fin y) = NInf"
| "fadd PInf PInf = PInf"
| "fadd NInf NInf = NInf"
| "fadd PInf NInf = NaN"
| "fadd NInf PInf = NaN"
| "fadd NaN y = NaN"
| "fadd x NaN = NaN"

definition fsub :: "fval \<Rightarrow> fval \<Rightarrow> fval" where
  "fsub x y = fadd x (fneg y)"

definition signed_inf :: "bool \<Rightarrow> fval" where
  "signed_inf positive = (if positive then PInf else NInf)"

fun fmul :: "fval \<Rightarrow> fval \<Rightarrow> fval" where
  "fmul (Fin x) (Fin y) = Fin (x * y)"
| "fmul (Fin x) PInf = (if x = 0 then NaN else signed_inf (0 < x))"
| "fmul (Fin x) NInf = (if x = 0 then NaN else signed_inf (x < 0))"
| "fmul PInf (Fin y) = (if y = 0 then NaN else signed_inf (0 < y))"
| "fmul NInf (Fin y) = (if y = 0 then NaN else signed_inf (y < 0))"
| "fmul PInf PInf = PInf"
| "fmul NInf NInf = PInf"
| "fmul PInf NInf = NInf"
| "fmul NInf PInf = NInf"
| "fmul NaN y = NaN"
| "fmul x NaN = NaN"

fun fdiv :: "fval \<Rightarrow> fval \<Rightarrow> fval" where
  "fdiv (Fin x) (Fin y) =
     (if y = 0 then (if x = 0 then NaN else signed_inf (0 < x)) else Fin (x / y))"
| "fdiv (Fin x) PInf = Fin 0"
| "fdiv (Fin x) NInf = Fin 0"
| "fdiv PInf (Fin y) = signed_inf (0 \<le> y)"
| "fdiv NInf (Fin y) = signed_inf (y < 0)"
| "fdiv PInf PInf = NaN"
| "fdiv NInf NInf = NaN"
| "fdiv PInf NInf = NaN"
| "fdiv NInf PInf = NaN"
| "fdiv NaN y = NaN"
| "fdiv x NaN = NaN"

fun fexp :: "fval \<Rightarrow> fval" where
  "fexp NaN = NaN"
| "fexp PInf = PInf"
| "fexp NInf = Fin 0"
| "fexp (Fin x) = Fin (exp x)"

fun flog :: "fval \<Rightarrow> fval" where
  "flog NaN = NaN"
| "flog PInf = PInf"
| "flog NInf = NaN"
| "flog (Fin x) = (if 0 < x then Fin (ln x) else if x = 0 then NInf else NaN)"

fun fsqrt :: "fval \<Rightarrow> fval" where
  "fsqrt NaN = NaN"
| "fsqrt PInf = PInf"
| "fsqrt NInf = NaN"
| "fsqrt (Fin x) = (if 0 \<le> x then Fin (sqrt x) else NaN)"

text \<open>
  \<^verbatim>\<open>x ** y\<close> for a finite exponent \<open>y\<close> (C99 \<^verbatim>\<open>pow\<close>, which \<^verbatim>\<open>np.power\<close> calls):
  anything to the power zero is one; a zero base to a negative power is \<open>+inf\<close>;
  a negative base to a power that is not an integer is NaN.
\<close>

definition is_odd_integer :: "real \<Rightarrow> bool" where
  "is_odd_integer y = (y = of_int \<lfloor>y\<rfloor> \<and> odd \<lfloor>y\<rfloor>)"

fun fpow :: "fval \<Rightarrow> real \<Rightarrow> fval" where
  "fpow NaN y = (if y = 0 then Fin 1 else NaN)"
| "fpow PInf y = (if y = 0 then Fin 1 else if 0 < y then PInf else Fin 0)"
| "fpow NInf y =
     (if y = 0 then Fin 1
      else if 0 < y then (if is_odd_integer y then NInf else PInf)
      else Fin 0)"
| "fpow (Fin x) y =
     (if y = 0 then Fin 1
      else if 0 < x then Fin (x powr y)
      else if x = 0 then (if 0 < y then Fin 0 else PInf)
      else if y = of_int \<lfloor>y\<rfloor> then Fin (x powi \<lfloor>y\<rfloor>)
      else NaN)"

text \<open>\<^verbatim>\<open>np.sum\<close> of an array, added from the left starting at zero.\<close>

definition fsum :: "fval list \<Rightarrow> fval" where
  "fsum xs = foldl fadd (Fin 0) xs"

text \<open>
  numpy broadcasting of two one-dimensional arrays: equal lengths pair up, an array of
  length one is repeated, anything else raises \<^verbatim>\<open>ValueError\<close>.
\<close>

definition broadcast :: "'a list \<Rightarrow> 'b list \<Rightarrow> pyerror + ('a \<times> 'b) list" where
  "broadcast xs ys =
     (if length xs = length ys then Inr (zip xs ys)
      else if length xs = 1 then Inr (map (\<lambda>y. (hd xs, y)) ys)
      else if length ys = 1 then Inr (map (\<lambda>x. (x, hd ys)) xs)
      else Inl ValueError)"

text \<open>Sequencing: the first exception raised ends the computation.\<close>

definition then_do :: "pyerror + 'a \<Rightarrow> ('a \<Rightarrow> pyerror + 'b) \<Rightarrow> pyerror + 'b" where
  "then_do m f = (case m of Inl e \<Rightarrow> Inl e | Inr v \<Rightarrow> f v)"

text \<open>Indexing a Python list or numpy array with a non-negative index.\<close>

definition getitem :: "'a list \<Rightarrow> nat \<Rightarrow> pyerror + 'a" where
  "getitem xs i = (if i < length xs then Inr (xs ! i) else Inl IndexError)"

section \<open>\<^verbatim>\<open>libs/fitting_utils.py\<close>\<close>

subsection \<open>\<^verbatim>\<open>chi_sq\<close>\<close>

text \<open>
  \<^verbatim>\<open>
  inv_sigma_squared = 1./np.sum(data_error.value**2+\
                                data_model.value**2*np.exp(2*lnf))
  return -0.5*np.sum((real_data.value-data_model.value)**2*inv_sigma_squared\
                     - np.log(inv_sigma_squared))
  \<close>
  The arrays are taken flattened, with finite entries. \<^verbatim>\<open>inv_sigma_squared\<close> is a
  scalar: \<^verbatim>\<open>np.sum\<close> adds up the variances of all measurements before the division.
\<close>

definition chi_sq :: "real list \<Rightarrow> real list \<Rightarrow> real list \<Rightarrow> real \<Rightarrow> pyerror + fval" where
  "chi_sq real_data data_error data_model lnf =
     (case broadcast data_error data_model of
        Inl e \<Rightarrow> Inl e
      | Inr error_model \<Rightarrow>
          (let inv_sigma_squared =
                 fdiv (Fin 1)
                   (fsum (map (\<lambda>(e, m). Fin (e\<^sup>2 + m\<^sup>2 * exp (2 * lnf))) error_model))
           in case broadcast real_data data_model of
                Inl e \<Rightarrow> Inl e
              | Inr real_model \<Rightarrow>
                  Inr (fmul (Fin (- 0.5))
                        (fsum (map (\<lambda>(r, m).
                                 fsub (fmul (Fin ((r - m)\<^sup>2)) inv_sigma_squared)
                                      (flog inv_sigma_squared))
                               real_model)))))"

text \<open>
  The chi-square term as the specification words it, with one effective variance per
  measurement:
  \<open>-0.5 \<cdot> \<Sum>[(obs - model)\<^sup>2 / \<sigma>_eff\<^sup>2 + ln \<sigma>_eff\<^sup>2]\<close> where
  \<open>\<sigma>_eff\<^sup>2 = \<sigma>_obs\<^sup>2 + model\<^sup>2 \<cdot> exp (2 \<cdot> lnf)\<close>.
\<close>

definition sigma_eff_squared :: "real \<Rightarrow> real \<Rightarrow> real \<Rightarrow> real" where
  "sigma_eff_squared sigma_obs model lnf = sigma_obs\<^sup>2 + model\<^sup>2 * exp (2 * lnf)"

definition chi_sq_spec :: "real list \<Rightarrow> real list \<Rightarrow> real list \<Rightarrow> real \<Rightarrow> real" where
  "chi_sq_spec obs sigma_obs model lnf =
     - 0.5 * sum_list (map (\<lambda>(ob, s, m).
                (ob - m)\<^sup>2 / sigma_eff_squared s m lnf + ln (sigma_eff_squared s m lnf))
              (zip obs (zip sigma_obs model)))"

subsection \<open>\<^verbatim>\<open>lnprior\<close>\<close>

text \<open>
  \<^verbatim>\<open>
  for i, o in enumerate(priors):
      if not (o[0] < theta[i] < o[1]):
          return -np.inf
  return 0.
  \<close>
  The chained comparison reads \<^verbatim>\<open>o[0]\<close>, then \<^verbatim>\<open>theta[i]\<close>, and reads \<^verbatim>\<open>o[1]\<close> only
  when the first comparison holds. The loop counter is the first argument.
\<close>

fun lnprior_loop :: "nat \<Rightarrow> real list \<Rightarrow> real list list \<Rightarrow> pyerror + fval" where
  "lnprior_loop i theta [] = Inr (Fin 0)"
| "lnprior_loop i theta (bounds # rest) =
     (case getitem bounds 0 of
        Inl e \<Rightarrow> Inl e
      | Inr lower \<Rightarrow>
          (case getitem theta i of
             Inl e \<Rightarrow> Inl e
           | Inr t \<Rightarrow>
               if lower < t then
                 (case getitem bounds 1 of
                    Inl e \<Rightarrow> Inl e
                  | Inr upper \<Rightarrow>
                      if t < upper then lnprior_loop (Suc i) theta rest else Inr NInf)
               else Inr NInf))"

definition lnprior :: "real list \<Rightarrow> real list list \<Rightarrow> pyerror + fval" where
  "lnprior theta priors = lnprior_loop 0 theta priors"

subsection \<open>\<^verbatim>\<open>lnlike\<close>\<close>

text \<open>
  \<^verbatim>\<open>
  lnf = theta[-1]
  total_flux_mod, corr_flux_mod, cphases_mod = calculate_model(theta[:-1], data)
  if data.fit_total_flux:
      total_flux_chi_sq = chi_sq(data.total_fluxes,
                                 data.total_fluxes_error,
                                 total_flux_mod, lnf)
  else:
      total_flux_chi_sq= 0
  corr_flux_chi_sq = chi_sq(data.corr_fluxes,
                            data.corr_fluxes_error,
                            corr_flux_mod, lnf)
  if data.fit_cphases:
      cphases_chi_sq = chi_sq(data.cphases,
                              data.cphases_error,
                              cphases_mod, lnf)
  else:
      cphases_chi_sq = 0
  return np.array(total_flux_chi_sq+corr_flux_chi_sq+cphases_chi_sq)
  \<close>
  \<^verbatim>\<open>calculate_model\<close> builds the combined model and its Fourier transform from classes
  that are not part of these sources: it is a parameter, returning the three model
  arrays. The data handler is a record of the attributes read here and in \<^verbatim>\<open>lnprob\<close>.
\<close>

record data_handler =
  priors :: "real list list"

record fit_data = data_handler +
  fit_total_flux :: bool
  fit_cphases :: bool
  total_fluxes :: "real list"
  total_fluxes_error :: "real list"
  corr_fluxes :: "real list"
  corr_fluxes_error :: "real list"
  cphases :: "real list"
  cphases_error :: "real list"

definition lnlike ::
  "(real list \<Rightarrow> 'a fit_data_scheme \<Rightarrow> pyerror + (real list \<times> real list \<times> real list))
     \<Rightarrow> real list \<Rightarrow> 'a fit_data_scheme \<Rightarrow> pyerror + fval" where
  "lnlike calculate_model theta data =
     (if theta = [] then Inl IndexError
      else
        let lnf = last theta in
        then_do (calculate_model (butlast theta) data)
          (\<lambda>(total_flux_mod, corr_flux_mod, cphases_mod).
        then_do (if fit_total_flux data
                 then chi_sq (total_fluxes data) (total_fluxes_error data) total_flux_mod lnf
                 else Inr (Fin 0)) (\<lambda>total_flux_chi_sq.
        then_do (chi_sq (corr_fluxes data) (corr_fluxes_error data) corr_flux_mod lnf)
          (\<lambda>corr_flux_chi_sq.
        then_do (if fit_cphases data
                 then chi_sq (cphases data) (cphases_error data) cphases_mod lnf
                 else Inr (Fin 0)) (\<lambda>cphases_chi_sq.
          Inr (fadd (fadd total_flux_chi_sq corr_flux_chi_sq) cphases_chi_sq))))))"

text \<open>A stand-in for \<^verbatim>\<open>calculate_model\<close> that returns the same arrays for every argument.\<close>

definition constant_model ::
  "real list \<times> real list \<times> real list \<Rightarrow> real list \<Rightarrow> 'a fit_data_scheme
     \<Rightarrow> pyerror + (real list \<times> real list \<times> real list)" where
  "constant_model arrays theta data = Inr arrays"

subsection \<open>\<^verbatim>\<open>lnprob\<close>\<close>

text \<open>
  \<^verbatim>\<open>return lnlike(theta, data) if np.isfinite(lnprior(theta, data.priors)) else -np.inf\<close>

  The likelihood function is a parameter, so that the properties of \<^verbatim>\<open>lnprob\<close> hold
  whatever the model computes. To observe whether the model was evaluated, the result
  carries the list of argument vectors the likelihood function was called with.
\<close>

record lnprob_result =
  lnprob_value :: fval
  lnlike_calls :: "real list list"

definition lnprob ::
  "(real list \<Rightarrow> 'a data_handler_scheme \<Rightarrow> pyerror + fval) \<Rightarrow> real list
     \<Rightarrow> 'a data_handler_scheme \<Rightarrow> pyerror + lnprob_result" where
  "lnprob likelihood theta data =
     (case lnprior theta (priors data) of
        Inl e \<Rightarrow> Inl e
      | Inr p \<Rightarrow>
          if isfinite p then
            (case likelihood theta data of
               Inl e \<Rightarrow> Inl e
             | Inr v \<Rightarrow> Inr \<lparr>lnprob_value = v, lnlike_calls = [theta]\<rparr>)
          else Inr \<lparr>lnprob_value = NInf, lnlike_calls = []\<rparr>)"

text \<open>
  A parameter vector against its declared bounds, pairing \<open>theta[i]\<close> with \<open>priors[i]\<close>:
  inside the closed interval \<open>[lower, upper]\<close>, strictly inside it, strictly outside it.
\<close>

definition inside_bounds :: "real list \<Rightarrow> real list list \<Rightarrow> bool" where
  "inside_bounds theta bs = list_all (\<lambda>(t, b). b ! 0 \<le> t \<and> t \<le> b ! 1) (zip theta bs)"

definition strictly_inside :: "real list \<Rightarrow> real list list \<Rightarrow> bool" where
  "strictly_inside theta bs = list_all (\<lambda>(t, b). b ! 0 < t \<and> t < b ! 1) (zip theta bs)"

definition outside_bounds :: "real list \<Rightarrow> real list list \<Rightarrow> bool" where
  "outside_bounds theta bs = list_ex (\<lambda>(t, b). t < b ! 0 \<or> b ! 1 < t) (zip theta bs)"

definition returns_finite :: "pyerror + lnprob_result \<Rightarrow> bool" where
  "returns_finite r = (case r of Inl e \<Rightarrow> False | Inr v \<Rightarrow> isfinite (lnprob_value v))"

text \<open>A stand-in for \<^verbatim>\<open>lnlike\<close> that returns the same value for every argument.\<close>

definition constant_lnlike :: "fval \<Rightarrow> real list \<Rightarrow> 'a data_handler_scheme \<Rightarrow> pyerror + fval" where
  "constant_lnlike v theta data = Inr v"

section \<open>\<^verbatim>\<open>libs/utils.py\<close>\<close>

text \<open>
  An astropy quantity is modelled by its magnitude in the unit the signature declares
  for it (\<^verbatim>\<open>u.K\<close>, \<^verbatim>\<open>u.pc\<close>, \<^verbatim>\<open>u.W\<close>, \<^verbatim>\<open>u.mas\<close>, \<^verbatim>\<open>u.m\<close>, \<^verbatim>\<open>u.um\<close>); a conversion
  \<^verbatim>\<open>.to(...)\<close> multiplies by the conversion factor. The constants are astropy's:
  the Stefan-Boltzmann constant in \<open>W m\<^sup>-\<^sup>2 K\<^sup>-\<^sup>4\<close>, one parsec in metres, one radian in
  milliarcseconds.
\<close>

definition sigma_sb :: real where
  "sigma_sb = 5.670374419 / 10 ^ 8"

definition pc_in_m :: real where
  "pc_in_m = 3.0856775814913673 * 10 ^ 16"

definition rad_in_mas :: real where
  "rad_in_mas = 180 / pi * 3600 * 1000"

text \<open>\<^verbatim>\<open>return (1*u.rad).to(u.mas)*(orbital_radius.to(u.m)/distance.to(u.m))\<close>\<close>

definition convert_orbital_radius_to_parallax :: "fval \<Rightarrow> fval \<Rightarrow> fval" where
  "convert_orbital_radius_to_parallax orbital_radius distance =
     fmul (Fin rad_in_mas) (fdiv orbital_radius (fmul distance (Fin pc_in_m)))"

text \<open>\<^verbatim>\<open>return (parallax*distance.to(u.m))/(1*u.rad).to(u.mas)\<close>\<close>

definition convert_parallax_to_orbital_radius :: "fval \<Rightarrow> fval \<Rightarrow> fval" where
  "convert_parallax_to_orbital_radius parallax distance =
     fdiv (fmul parallax (fmul distance (Fin pc_in_m))) (Fin rad_in_mas)"

text \<open>
  \<^verbatim>\<open>
  radius = np.sqrt(luminosity_star/(4*np.pi*c.sigma_sb*inner_temperature**4))
  return _convert_orbital_radius_to_parallax(radius, distance)
  \<close>
\<close>

definition calculate_inner_radius :: "fval \<Rightarrow> fval \<Rightarrow> fval \<Rightarrow> fval" where
  "calculate_inner_radius inner_temperature distance luminosity_star =
     (let radius = fsqrt (fdiv luminosity_star
                           (fmul (Fin (4 * pi * sigma_sb)) (fpow inner_temperature 4)))
      in convert_orbital_radius_to_parallax radius distance)"

text \<open>
  \<^verbatim>\<open>
  if inner_radius.unit == u.mas:
      inner_radius = _convert_parallax_to_orbital_radius(inner_radius, distance)
  return (luminosity_star/(4*np.pi*c.sigma_sb*inner_radius**2))**(1/4)
  \<close>
  The inner radius is given in \<^verbatim>\<open>u.mas\<close>, as the signature declares it and as
  \<^verbatim>\<open>_calculate_inner_radius\<close> returns it.
\<close>

definition calculate_inner_temperature :: "fval \<Rightarrow> fval \<Rightarrow> fval \<Rightarrow> fval" where
  "calculate_inner_temperature inner_radius distance luminosity_star =
     (let inner_radius_m = convert_parallax_to_orbital_radius inner_radius distance
      in fpow (fdiv luminosity_star
                 (fmul (Fin (4 * pi * sigma_sb)) (fpow inner_radius_m 2)))
              (1 / 4))"

text \<open>
  astropy's \<^verbatim>\<open>PowerLaw1D.evaluate(x, amplitude, x_0, alpha)\<close>:
  \<^verbatim>\<open>xx = x / x_0; return amplitude * xx ** (-alpha)\<close>.
\<close>

definition power_law_1d :: "fval \<Rightarrow> fval \<Rightarrow> fval \<Rightarrow> real \<Rightarrow> fval" where
  "power_law_1d x amplitude x_0 alpha =
     (let xx = fdiv x x_0 in fmul amplitude (fpow xx (- alpha)))"

text \<open>\<^verbatim>\<open>a[a == np.inf] = 0.\<close>: only an entry equal to \<open>+inf\<close> is replaced.\<close>

definition clamp_inf :: "fval list \<Rightarrow> fval list" where
  "clamp_inf a = map (\<lambda>t. if t = PInf then Fin 0 else t) a"

text \<open>
  \<^verbatim>\<open>
  temperature = models.PowerLaw1D().evaluate(radius, inner_temperature,
                                             inner_radius, power_law_exponent)
  temperature[temperature == np.inf] = 0.*temperature.unit
  return temperature
  \<close>
\<close>

definition temperature_gradient :: "fval list \<Rightarrow> real \<Rightarrow> fval \<Rightarrow> fval \<Rightarrow> fval list" where
  "temperature_gradient radius power_law_exponent inner_radius inner_temperature =
     clamp_inf (map (\<lambda>r. power_law_1d r inner_temperature inner_radius power_law_exponent)
                  radius)"

definition optical_depth_gradient :: "fval list \<Rightarrow> real \<Rightarrow> fval \<Rightarrow> fval \<Rightarrow> fval list" where
  "optical_depth_gradient radius power_law_exponent inner_radius inner_optical_depth =
     clamp_inf (map (\<lambda>r. power_law_1d r inner_optical_depth inner_radius power_law_exponent)
                  radius)"

text \<open>
  \<^verbatim>\<open>
  plancks_law = models.BlackBody(temperature=temperature_distribution)
  spectral_radiance = plancks_law(wavelength).to(u.erg/(u.cm**2*u.Hz*u.s*u.mas**2))
  flux_per_pixel = spectral_radiance*pixel_size**2
  return (flux_per_pixel.to(u.Jy))*(1-np.exp(-optical_depth))
  \<close>
  astropy's Planck function is the parameter \<open>plancks_law\<close> (wavelength and temperature
  to \<^verbatim>\<open>erg / (cm2 Hz s sr)\<close>); \<^verbatim>\<open>BlackBody\<close> raises \<^verbatim>\<open>ValueError\<close> when a temperature is
  negative. One steradian is \<open>rad_in_mas\<^sup>2\<close> square milliarcseconds, and
  \<^verbatim>\<open>1 erg / (cm2 Hz s)\<close> is \<open>10\<^sup>2\<^sup>3\<close> Jy. Nothing in the function replaces an entry of the
  result.
\<close>

fun fless :: "fval \<Rightarrow> fval \<Rightarrow> bool" where
  "fless (Fin x) (Fin y) = (x < y)"
| "fless (Fin x) PInf = True"
| "fless NInf (Fin y) = True"
| "fless NInf PInf = True"
| "fless x y = False"

definition flux_per_pixel ::
  "(fval \<Rightarrow> fval \<Rightarrow> fval) \<Rightarrow> fval \<Rightarrow> fval list \<Rightarrow> fval list \<Rightarrow> fval \<Rightarrow> pyerror + fval list" where
  "flux_per_pixel plancks_law wavelength temperature_distribution optical_depth pixel_size =
     (if list_ex (\<lambda>T. fless T (Fin 0)) temperature_distribution then Inl ValueError
      else case broadcast temperature_distribution optical_depth of
        Inl e \<Rightarrow> Inl e
      | Inr cells \<Rightarrow>
          Inr (map (\<lambda>(T, tau).
                 let spectral_radiance = fmul (plancks_law wavelength T) (Fin (1 / rad_in_mas\<^sup>2));
                     flux = fmul spectral_radiance (fpow pixel_size 2)
                 in fmul (fmul flux (Fin (10 ^ 23))) (fsub (Fin 1) (fexp (fneg tau))))
               cells))"

section \<open>\<^verbatim>\<open>libs/readout.py\<close>\<close>

subsection \<open>\<^verbatim>\<open>get_wavelength_indices\<close>\<close>

text \<open>\<^verbatim>\<open>np.where(flags)[0].tolist()\<close>: the positions of the true entries, ascending.\<close>

fun where_from :: "nat \<Rightarrow> bool list \<Rightarrow> nat list" where
  "where_from i [] = []"
| "where_from i (b # bs) = (if b then i # where_from (Suc i) bs else where_from (Suc i) bs)"

definition np_where :: "bool list \<Rightarrow> nat list" where
  "np_where flags = where_from 0 flags"

text \<open>
  \<^verbatim>\<open>
  if wavelengths.shape[0] != wavelength_window_sizes.shape[0]:
      np.repeat(wavelength_window_sizes, wavelengths.shape[0])
  window_top_bound = wavelengths + wavelength_window_sizes/2
  window_bot_bound = wavelengths - wavelength_window_sizes/2
  windows = [(self.wavelength_solution > bot, self.wavelength_solution < top)\
             for bot, top in zip(window_bot_bound, window_top_bound)]
  return [np.where(np.logical_and(*window))[0].tolist() for window in windows]
  \<close>
  All three arrays are in micrometres. The value of \<^verbatim>\<open>np.repeat\<close> is dropped, so the
  sum and the difference broadcast the two arguments as they were given.
\<close>

definition get_wavelength_indices ::
  "real list \<Rightarrow> real list \<Rightarrow> real list \<Rightarrow> pyerror + nat list list" where
  "get_wavelength_indices wavelength_solution wavelengths wavelength_window_sizes =
     (case broadcast wavelengths (map (\<lambda>w. w / 2) wavelength_window_sizes) of
        Inl e \<Rightarrow> Inl e
      | Inr pairs \<Rightarrow>
          (let window_top_bound = map (\<lambda>(w, h). w + h) pairs;
               window_bot_bound = map (\<lambda>(w, h). w - h) pairs;
               windows = map (\<lambda>(bot, top).
                            (map (\<lambda>s. bot < s) wavelength_solution,
                             map (\<lambda>s. s < top) wavelength_solution))
                          (zip window_bot_bound window_top_bound)
           in Inr (map (\<lambda>(above, below). np_where (map (\<lambda>(a, b). a \<and> b) (zip above below)))
                     windows)))"

text \<open>
  The window as the specification words it: the indices of the wavelength solution
  within the closed interval \<open>[target - width/2, target + width/2]\<close>.
\<close>

definition closed_window_indices :: "real list \<Rightarrow> real \<Rightarrow> real \<Rightarrow> nat list" where
  "closed_window_indices wavelength_solution target width =
     np_where (map (\<lambda>s. target - width / 2 \<le> s \<and> s \<le> target + width / 2) wavelength_solution)"

subsection \<open>\<^verbatim>\<open>get_closures_phase_uvcoords_split\<close>\<close>

text \<open>
  The \<^verbatim>\<open>oi_t3\<close> table of the FITS file has one row per closure-phase triangle;
  \<^verbatim>\<open>get_data\<close> returns the named columns.
  \<^verbatim>\<open>
  u1, v1 = self.get_data("oi_t3", "u1coord", "v1coord")
  u2, v2 = self.get_data("oi_t3", "u2coord", "v2coord")
  # NOTE: After Jozsef this does not make good closure phases
  # u3, v3 = -(u1+u2), -(v1+v2)
  u3, v3 = (u1+u2), (v1+v2)
  return ([u1, u2, u3], [v1, v2, v3])*u.m
  \<close>
\<close>

record t3_row =
  u1coord :: real
  v1coord :: real
  u2coord :: real
  v2coord :: real

definition get_data :: "'r list \<Rightarrow> ('r \<Rightarrow> real) \<Rightarrow> real list" where
  "get_data table column = map column table"

definition np_add :: "real list \<Rightarrow> real list \<Rightarrow> pyerror + real list" where
  "np_add xs ys =
     (case broadcast xs ys of Inl e \<Rightarrow> Inl e | Inr ps \<Rightarrow> Inr (map (\<lambda>(x, y). x + y) ps))"

definition get_closures_phase_uvcoords_split ::
  "t3_row list \<Rightarrow> pyerror + (real list list \<times> real list list)" where
  "get_closures_phase_uvcoords_split oi_t3 =
     (let u1 = get_data oi_t3 u1coord; v1 = get_data oi_t3 v1coord;
          u2 = get_data oi_t3 u2coord; v2 = get_data oi_t3 v2coord
      in case np_add u1 u2 of
           Inl e \<Rightarrow> Inl e
         | Inr u3 \<Rightarrow>
             (case np_add v1 v2 of
                Inl e \<Rightarrow> Inl e
              | Inr v3 \<Rightarrow> Inr ([u1, u2, u3], [v1, v2, v3])))"

section \<open>\<^verbatim>\<open>functionality/model_base.py\<close>\<close>

subsection \<open>\<^verbatim>\<open>Model.__init__\<close>\<close>

text \<open>
  A name read in a function body is looked up among the function's parameters, then
  among the module's globals (here the names the module imports and the class it
  defines), then among the built-ins; a name found nowhere raises \<^verbatim>\<open>NameError\<close>. None of
  the names read below is a built-in.
\<close>

datatype pyval = Number real | NoneValue | Object

definition module_globals :: "string list" where
  "module_globals =
     [''inspect'', ''np'', ''u'', ''c'', ''models'', ''Quantity'', ''List'', ''Union'',
      ''Optional'', ''Model'']"

definition load_name :: "(string \<times> pyval) list \<Rightarrow> string \<Rightarrow> pyerror + pyval" where
  "load_name local_names n =
     (case map_of local_names n of
        Some v \<Rightarrow> Inr v
      | None \<Rightarrow> if n \<in> set module_globals then Inr Object else Inl (NameError n))"

text \<open>\<^verbatim>\<open>value*u.mas\<close> and the like: a number times a unit is a quantity of that magnitude.\<close>

definition times_unit :: "pyval \<Rightarrow> pyerror + real" where
  "times_unit v = (case v of Number x \<Rightarrow> Inr x | NoneValue \<Rightarrow> Inl TypeError | Object \<Rightarrow> Inl TypeError)"

text \<open>
  The attributes of an instance. \<^verbatim>\<open>__init__\<close> never assigns \<^verbatim>\<open>mas_size\<close>, which the
  property \<^verbatim>\<open>pixel_scaling\<close> reads: \<open>None\<close> stands for the missing attribute.
\<close>

record model =
  self_name :: "string option"
  self_axes_image :: "(real list list \<times> real list list) option"
  self_polar_angle :: "real list list option"
  self_field_of_view :: real
  self_image_size :: int
  self_pixel_sampling :: int
  self_sublimation_temperature :: real
  self_effective_temperature :: real
  self_luminosity_star :: real
  self_distance :: real
  self_wavelength :: real
  self_mas_size :: "real option"

text \<open>
  \<^verbatim>\<open>
  def __init__(self, field_of_view: Quantity, image_size: int,
               sublimation_temperature: int, effective_temperature: int,
               luminosity_star: int, distance: int, wavelength: float,
               pixel_sampling: Optional[int] = None) -> None:
      self.name = None
      self.axes_image, self.axes_complex_image, self.polar_angle = None, None, None
      self.field_of_view = field_of_view*u.mas
      self.image_size = image_size*u.dimensionless_unscaled
      self.pixel_sampling = self.image_size if pixel_sampling\
          is None else pixel_sampling
      self.sublimation_temperature = sublimation_temperature*u.K
      self.effective_temperature = effective_temperature*u.K
      self.luminosity_star = luminostiy_star*u.L_sun
      self.distance = distance*u.pc
      self.wavelength = wavelength*u.um
      self._r_sub = sublimation_radius(self.T_sub, self.L_star, self.d)
      ...
  \<close>
  The arguments are numbers, as annotated. The statements run in order; the last one
  modelled is the read of the function name \<^verbatim>\<open>sublimation_radius\<close>.
\<close>

definition Model_init ::
  "real \<Rightarrow> int \<Rightarrow> real \<Rightarrow> real \<Rightarrow> real \<Rightarrow> real \<Rightarrow> real \<Rightarrow> int option \<Rightarrow> pyerror + model" where
  "Model_init field_of_view image_size sublimation_temperature effective_temperature
       luminosity_star distance wavelength pixel_sampling =
     (let local_names =
            [(''self'', Object),
             (''field_of_view'', Number field_of_view),
             (''image_size'', Number (of_int image_size)),
             (''sublimation_temperature'', Number sublimation_temperature),
             (''effective_temperature'', Number effective_temperature),
             (''luminosity_star'', Number luminosity_star),
             (''distance'', Number distance),
             (''wavelength'', Number wavelength),
             (''pixel_sampling'',
                case pixel_sampling of None \<Rightarrow> NoneValue | Some k \<Rightarrow> Number (of_int k))]
      in
      then_do (then_do (load_name local_names ''field_of_view'') times_unit) (\<lambda>fov.
      then_do (then_do (load_name local_names ''image_size'') times_unit) (\<lambda>size.
      then_do (load_name local_names ''pixel_sampling'') (\<lambda>sampling.
      then_do (then_do (load_name local_names ''sublimation_temperature'') times_unit) (\<lambda>t_sub.
      then_do (then_do (load_name local_names ''effective_temperature'') times_unit) (\<lambda>t_eff.
      then_do (then_do (load_name local_names ''luminostiy_star'') times_unit) (\<lambda>lum.
      then_do (then_do (load_name local_names ''distance'') times_unit) (\<lambda>dist.
      then_do (then_do (load_name local_names ''wavelength'') times_unit) (\<lambda>wl.
      then_do (load_name local_names ''sublimation_radius'') (\<lambda>f.
        Inr \<lparr>self_name = None, self_axes_image = None, self_polar_angle = None,
             self_field_of_view = fov, self_image_size = \<lfloor>size\<rfloor>,
             self_pixel_sampling = (case sampling of Number k \<Rightarrow> \<lfloor>k\<rfloor> | NoneValue \<Rightarrow> \<lfloor>size\<rfloor> | Object \<Rightarrow> \<lfloor>size\<rfloor>),
             self_sublimation_temperature = t_sub, self_effective_temperature = t_eff,
             self_luminosity_star = lum, self_distance = dist, self_wavelength = wl,
             self_mas_size = None\<rparr>))))))))))"

subsection \<open>\<^verbatim>\<open>Model._get_flux\<close>\<close>

text \<open>
  The older flux computation of the base class ends with
  \<^verbatim>\<open>flux[np.where(np.isnan(flux))],flux[np.where(np.isinf(flux))] = 0., 0.\<close>:
  first every NaN entry, then every infinite entry of the flux is set to zero.
\<close>

definition zero_nan_inf :: "fval list \<Rightarrow> fval list" where
  "zero_nan_inf flux =
     map (\<lambda>f. if isinf f then Fin 0 else f) (map (\<lambda>f. if isnan f then Fin 0 else f) flux)"

subsection \<open>\<^verbatim>\<open>Model.set_grid\<close>\<close>

text \<open>
  The position angle is an astropy quantity whose unit matters here. A quantity that is
  not dimensionless compares with a bare number only when the number is zero;
  otherwise the comparison raises \<^verbatim>\<open>UnitConversionError\<close>, as does a conversion between
  units that are not equivalent. \<^verbatim>\<open>UnitConversionError\<close> is a \<^verbatim>\<open>ValueError\<close>.
\<close>

datatype angle_unit = Deg | Rad | Times angle_unit angle_unit

type_synonym quantity = "real \<times> angle_unit"

definition number_times_deg :: "real \<Rightarrow> quantity" where
  "number_times_deg v = (v, Deg)"

definition quantity_times_deg :: "quantity \<Rightarrow> quantity" where
  "quantity_times_deg q = (fst q, Times (snd q) Deg)"

fun to_rad :: "quantity \<Rightarrow> pyerror + quantity" where
  "to_rad (v, Deg) = Inr (v * pi / 180, Rad)"
| "to_rad (v, Rad) = Inr (v, Rad)"
| "to_rad (v, Times a b) = Inl ValueError"

definition quantity_greater :: "quantity \<Rightarrow> real \<Rightarrow> pyerror + bool" where
  "quantity_greater q c = (if c = 0 then Inr (0 < fst q) else Inl ValueError)"

definition quantity_less :: "quantity \<Rightarrow> real \<Rightarrow> pyerror + bool" where
  "quantity_less q c = (if c = 0 then Inr (fst q < 0) else Inl ValueError)"

text \<open>
  \<^verbatim>\<open>np.linspace(start, stop, num, endpoint=False)\<close>: \<open>num\<close> samples from \<open>start\<close> in steps
  of \<open>(stop - start) / num\<close>; a negative \<open>num\<close> raises \<^verbatim>\<open>ValueError\<close>.
\<close>

definition linspace_open :: "real \<Rightarrow> real \<Rightarrow> int \<Rightarrow> pyerror + real list" where
  "linspace_open start stop num =
     (if num < 0 then Inl ValueError
      else Inr (map (\<lambda>i. start + real i * ((stop - start) / of_int num)) [0..<nat num]))"

text \<open>\<^verbatim>\<open>return (self.mas_size*u.mas)/self.pixel_sampling\<close>\<close>

definition pixel_scaling :: "model \<Rightarrow> pyerror + real" where
  "pixel_scaling self =
     (case self_mas_size self of
        None \<Rightarrow> Inl (AttributeError ''mas_size'')
      | Some m \<Rightarrow> Inr (m / of_int (self_pixel_sampling self)))"

text \<open>\<^verbatim>\<open>np.arctan2(a, b)\<close>: the angle of the point with abscissa \<open>b\<close> and ordinate \<open>a\<close>.\<close>

definition arctan2 :: "real \<Rightarrow> real \<Rightarrow> real" where
  "arctan2 a b = Arg (Complex b a)"

text \<open>
  A row vector \<open>x\<close> broadcast against the column vector \<open>y = x[:, np.newaxis]\<close>: entry
  \<open>(j, i)\<close> of the result combines \<open>x[i]\<close> with \<open>y[j]\<close>.
\<close>

definition outer :: "(real \<Rightarrow> real \<Rightarrow> real) \<Rightarrow> real list \<Rightarrow> real list \<Rightarrow> real list list" where
  "outer f x y = map (\<lambda>yj. map (\<lambda>xi. f xi yj) x) y"

text \<open>
  \<^verbatim>\<open>
  x = np.linspace(-self.image_size//2, self.image_size//2,
                  self.pixel_sampling, endpoint=False)*self.pixel_scaling
  y = x[:, np.newaxis]
  if incline_params:
      try:
          axis_ratio, pos_angle = incline_params
          pos_angle = (pos_angle*u.deg).to(u.rad)
      except:
          raise IOError(...)
      if axis_ratio < 1.:
          raise ValueError("The axis_ratio has to be bigger than 1.")
      if (pos_angle > 0) and (pos_angle < 180):
          raise ValueError("The positional angle must be between [0, 180]")
      axis_ratio *= u.dimensionless_unscaled
      pos_angle = (pos_angle*u.deg).to(u.rad)
      xr, yr = x*np.cos(pos_angle)+y*np.sin(pos_angle),\
              (-x*np.sin(pos_angle)+y*np.cos(pos_angle))/axis_ratio
      radius = np.sqrt(xr**2+yr**2)
      self.axes_image, self.polar_angle = [xr, yr], np.arctan2(xr, yr)
  else:
      radius = np.sqrt(x**2+y**2)
      self.axes_image, self.polar_angle = [x, y], np.arctan2(x, y)
  return radius
  \<close>
  The result is the radius together with the instance as the call leaves it.
\<close>

definition set_grid :: "model \<Rightarrow> real list option \<Rightarrow> pyerror + (real list list \<times> model)" where
  "set_grid self incline_params =
     then_do (linspace_open (of_int ((- self_image_size self) div 2))
                (of_int (self_image_size self div 2)) (self_pixel_sampling self)) (\<lambda>axis.
     then_do (pixel_scaling self) (\<lambda>scale.
       let x = map (\<lambda>a. a * scale) axis; y = x in
       if incline_params \<noteq> None \<and> incline_params \<noteq> Some [] then
         (case the incline_params of
            [axis_ratio, pos_angle_deg] \<Rightarrow>
              then_do (case to_rad (number_times_deg pos_angle_deg) of
                         Inl e \<Rightarrow> Inl IOError | Inr q \<Rightarrow> Inr q) (\<lambda>pos_angle.
              if axis_ratio < 1 then Inl ValueError
              else
                then_do (quantity_greater pos_angle 0) (\<lambda>positive.
                then_do (if positive then quantity_less pos_angle 180 else Inr False) (\<lambda>inside.
                if inside then Inl ValueError
                else
                  then_do (to_rad (quantity_times_deg pos_angle)) (\<lambda>pos_angle_rad.
                    let phi = fst pos_angle_rad;
                        xr = outer (\<lambda>xi yj. xi * cos phi + yj * sin phi) x y;
                        yr = outer (\<lambda>xi yj. (- xi * sin phi + yj * cos phi) / axis_ratio) x y;
                        radius = map (\<lambda>(row_x, row_y).
                                   map (\<lambda>(a, b). sqrt (a\<^sup>2 + b\<^sup>2)) (zip row_x row_y))
                                 (zip xr yr);
                        polar = map (\<lambda>(row_x, row_y).
                                   map (\<lambda>(a, b). arctan2 a b) (zip row_x row_y))
                                 (zip xr yr)
                    in Inr (radius,
                            self\<lparr>self_axes_image := Some (xr, yr),
                                 self_polar_angle := Some polar\<rparr>)))))
          | _ \<Rightarrow> Inl IOError)
       else
         Inr (outer (\<lambda>xi yj. sqrt (xi\<^sup>2 + yj\<^sup>2)) x y,
              self\<lparr>self_axes_image := Some ([x], map (\<lambda>yj. [yj]) y),
                   self_polar_angle := Some (outer (\<lambda>xi yj. arctan2 xi yj) x y)\<rparr>)))"

text \<open>
  An instance as a subclass or a caller would have to prepare it for \<^verbatim>\<open>set_grid\<close>,
  with \<^verbatim>\<open>mas_size\<close> assigned: the values of the module's own example,
  \<^verbatim>\<open>Model(50, 128, 1500, 7900, 140, 19, 8)\<close>.
\<close>

definition example_model :: model where
  "example_model =
     \<lparr>self_name = None, self_axes_image = None, self_polar_angle = None,
      self_field_of_view = 50, self_image_size = 128, self_pixel_sampling = 128,
      self_sublimation_temperature = 1500, self_effective_temperature = 7900,
      self_luminosity_star = 140, self_distance = 19, self_wavelength = 8,
      self_mas_size = Some 50\<rparr>"

section \<open>Properties of \<^verbatim>\<open>fitting_utils.py\<close>\<close>

subsection \<open>The prior check\<close>

text \<open>
  A parameter that is not strictly between its two bounds ends the loop with \<open>-inf\<close>.
  Every entry of the prior list before it has been read without an \<^verbatim>\<open>IndexError\<close>,
  since each entry holds a lower and an upper bound.
\<close>

lemma lnprior_loop_not_strictly_inside:
  assumes "\<forall>b\<in>set bs. 2 \<le> length b"
    and "k < length bs" "i + k < length theta"
    and "\<not> (bs ! k ! 0 < theta ! (i + k) \<and> theta ! (i + k) < bs ! k ! 1)"
  shows "lnprior_loop i theta bs = Inr NInf"
  using assms
proof (induction bs arbitrary: i k)
  case Nil
  then show ?case by simp
next
  case (Cons b rest)
  have len: "2 \<le> length b" using Cons.prems(1) by simp
  show ?case
  proof (cases k)
    case 0
    with Cons.prems len show ?thesis
      by (auto simp: getitem_def split: sum.splits)
  next
    case (Suc k')
    with Cons.prems have "lnprior_loop (Suc i) theta rest = Inr NInf"
      using Cons.IH[of k' "Suc i"] by simp
    with Suc Cons.prems len show ?thesis
      by (auto simp: getitem_def split: sum.splits)
  qed
qed

lemma lnprior_loop_strictly_inside:
  assumes "\<forall>b\<in>set bs. 2 \<le> length b"
    and "i + length bs \<le> length theta"
    and "\<forall>k<length bs. bs ! k ! 0 < theta ! (i + k) \<and> theta ! (i + k) < bs ! k ! 1"
  shows "lnprior_loop i theta bs = Inr (Fin 0)"
  using assms
proof (induction bs arbitrary: i)
  case Nil
  then show ?case by simp
next
  case (Cons b rest)
  have len: "2 \<le> length b" using Cons.prems(1) by simp
  have here: "b ! 0 < theta ! i \<and> theta ! i < b ! 1"
    using Cons.prems(3)[rule_format, of 0] by simp
  have "\<forall>k<length rest. rest ! k ! 0 < theta ! (Suc i + k) \<and> theta ! (Suc i + k) < rest ! k ! 1"
  proof (intro allI impI)
    fix k assume "k < length rest"
    then show "rest ! k ! 0 < theta ! (Suc i + k) \<and> theta ! (Suc i + k) < rest ! k ! 1"
      using Cons.prems(3)[rule_format, of "Suc k"] by simp
  qed
  then have "lnprior_loop (Suc i) theta rest = Inr (Fin 0)"
    using Cons.IH[of "Suc i"] Cons.prems(1,2) by simp
  with here len Cons.prems(2) show ?case
    by (auto simp: getitem_def)
qed

lemma strictly_inside_nth:
  "strictly_inside theta bs \<longleftrightarrow>
     (\<forall>k<min (length theta) (length bs). bs ! k ! 0 < theta ! k \<and> theta ! k < bs ! k ! 1)"
  by (auto simp: strictly_inside_def list_all_length)

lemma outside_not_strictly_inside:
  "outside_bounds theta bs \<Longrightarrow> \<not> strictly_inside theta bs"
  by (fastforce simp: outside_bounds_def strictly_inside_def list_all_iff list_ex_iff)

lemma lnprior_rejects:
  assumes "list_all (\<lambda>b. 2 \<le> length b) bs" and "\<not> strictly_inside theta bs"
  shows "lnprior theta bs = Inr NInf"
proof -
  from assms(2) obtain k where k: "k < length theta" "k < length bs"
    "\<not> (bs ! k ! 0 < theta ! k \<and> theta ! k < bs ! k ! 1)"
    by (auto simp: strictly_inside_nth)
  have "\<forall>b\<in>set bs. 2 \<le> length b" using assms(1) by (simp add: list_all_iff)
  then show ?thesis
    unfolding lnprior_def
    using lnprior_loop_not_strictly_inside[of bs k 0 theta] k by simp
qed

lemma lnprior_accepts:
  assumes "list_all (\<lambda>b. 2 \<le> length b) bs" and "strictly_inside theta bs"
    and "length bs \<le> length theta"
  shows "lnprior theta bs = Inr (Fin 0)"
proof -
  have "\<forall>b\<in>set bs. 2 \<le> length b" using assms(1) by (simp add: list_all_iff)
  moreover have "\<forall>k<length bs. bs ! k ! 0 < theta ! (0 + k) \<and> theta ! (0 + k) < bs ! k ! 1"
    using assms(2,3) by (simp add: strictly_inside_nth)
  ultimately show ?thesis
    unfolding lnprior_def
    using lnprior_loop_strictly_inside[of bs 0 theta] assms(3) by simp
qed

text \<open>
  C10. The bounds are exclusive: when some \<open>theta[i]\<close> equals the lower or the upper bound
  of \<open>priors[i]\<close>, \<^verbatim>\<open>lnprior\<close> returns \<open>-inf\<close>, and \<^verbatim>\<open>lnprob\<close> returns \<open>-inf\<close> without
  calling \<^verbatim>\<open>lnlike\<close>. Every entry of the prior list is a pair of bounds.
\<close>

theorem lnprior_bounds_exclusive:
  assumes "list_all (\<lambda>b. 2 \<le> length b) (priors data)"
    and "i < length (priors data)" "i < length theta"
    and "theta ! i = priors data ! i ! 0 \<or> theta ! i = priors data ! i ! 1"
  shows "lnprior theta (priors data) = Inr NInf \<and>
         lnprob likelihood theta data = Inr \<lparr>lnprob_value = NInf, lnlike_calls = []\<rparr>"
proof -
  have "\<not> strictly_inside theta (priors data)"
    using assms(2-4) by (auto simp: strictly_inside_nth)
  then have "lnprior theta (priors data) = Inr NInf"
    using assms(1) by (rule lnprior_rejects[rotated])
  then show ?thesis by (simp add: lnprob_def)
qed

theorem lnprior_bounds_exclusive_witness:
  "list_all (\<lambda>b. 2 \<le> length b) (priors \<lparr>priors = [[0, 1], [2, 5]]\<rparr>) \<and>
   [1 / 2, 5] ! 1 = priors \<lparr>priors = [[0, 1], [2, 5]]\<rparr> ! 1 ! 1 \<and>
   lnprior [1 / 2, 5] [[0, 1], [2, 5]] = Inr NInf \<and>
   lnprob (constant_lnlike (Fin 3)) [1 / 2, 5] \<lparr>priors = [[0, 1], [2, 5]]\<rparr>
     = Inr \<lparr>lnprob_value = NInf, lnlike_calls = []\<rparr>"
  using lnprior_bounds_exclusive
    [of "\<lparr>priors = [[0, 1], [2, 5]]\<rparr>" 1 "[1 / 2, 5]" "constant_lnlike (Fin 3)"]
  by simp

text \<open>
  C2, as the code has it. \<^verbatim>\<open>lnprob\<close> returns \<open>-inf\<close> without calling \<^verbatim>\<open>lnlike\<close> whenever some
  parameter is not strictly between its declared bounds, in particular whenever one lies
  strictly outside them; a parameter exactly on a bound is rejected too. When every
  parameter is strictly inside its bounds, \<^verbatim>\<open>lnprob\<close> calls \<^verbatim>\<open>lnlike\<close> once, on \<open>theta\<close>, and
  returns what \<^verbatim>\<open>lnlike\<close> returns: a finite value exactly when that value is finite.
\<close>

theorem lnprob_prior_gate:
  assumes "list_all (\<lambda>b. 2 \<le> length b) (priors data)"
  shows "(outside_bounds theta (priors data) \<longrightarrow>
            lnprob likelihood theta data = Inr \<lparr>lnprob_value = NInf, lnlike_calls = []\<rparr>) \<and>
         (\<not> strictly_inside theta (priors data) \<longrightarrow>
            lnprob likelihood theta data = Inr \<lparr>lnprob_value = NInf, lnlike_calls = []\<rparr>) \<and>
         (strictly_inside theta (priors data) \<and> length (priors data) \<le> length theta \<longrightarrow>
            lnprob likelihood theta data =
              (case likelihood theta data of
                 Inl e \<Rightarrow> Inl e
               | Inr v \<Rightarrow> Inr \<lparr>lnprob_value = v, lnlike_calls = [theta]\<rparr>))"
proof (intro conjI impI)
  assume "\<not> strictly_inside theta (priors data)"
  then have "lnprior theta (priors data) = Inr NInf"
    using assms by (rule lnprior_rejects[rotated])
  then show "lnprob likelihood theta data = Inr \<lparr>lnprob_value = NInf, lnlike_calls = []\<rparr>"
    by (simp add: lnprob_def)
next
  assume "outside_bounds theta (priors data)"
  then have "\<not> strictly_inside theta (priors data)"
    by (rule outside_not_strictly_inside)
  then have "lnprior theta (priors data) = Inr NInf"
    using assms by (rule lnprior_rejects[rotated])
  then show "lnprob likelihood theta data = Inr \<lparr>lnprob_value = NInf, lnlike_calls = []\<rparr>"
    by (simp add: lnprob_def)
next
  assume "strictly_inside theta (priors data) \<and> length (priors data) \<le> length theta"
  then have "lnprior theta (priors data) = Inr (Fin 0)"
    using assms lnprior_accepts by blast
  then show "lnprob likelihood theta data =
      (case likelihood theta data of
         Inl e \<Rightarrow> Inl e
       | Inr v \<Rightarrow> Inr \<lparr>lnprob_value = v, lnlike_calls = [theta]\<rparr>)"
    by (simp add: lnprob_def)
qed

theorem lnprob_prior_gate_witness:
  "list_all (\<lambda>b. 2 \<le> length b) (priors \<lparr>priors = [[0, 1], [2, 5]]\<rparr>) \<and>
   outside_bounds [1 / 2, 7] [[0, 1], [2, 5]] \<and>
   lnprob (constant_lnlike (Fin 3)) [1 / 2, 7] \<lparr>priors = [[0, 1], [2, 5]]\<rparr>
     = Inr \<lparr>lnprob_value = NInf, lnlike_calls = []\<rparr> \<and>
   strictly_inside [1 / 2, 3] [[0, 1], [2, 5]] \<and>
   lnprob (constant_lnlike (Fin 3)) [1 / 2, 3] \<lparr>priors = [[0, 1], [2, 5]]\<rparr>
     = Inr \<lparr>lnprob_value = Fin 3, lnlike_calls = [[1 / 2, 3]]\<rparr>"
  using lnprob_prior_gate
    [of "\<lparr>priors = [[0, 1], [2, 5]]\<rparr>" "[1 / 2, 7]" "constant_lnlike (Fin 3)"]
    lnprob_prior_gate
    [of "\<lparr>priors = [[0, 1], [2, 5]]\<rparr>" "[1 / 2, 3]" "constant_lnlike (Fin 3)"]
  by (simp add: outside_bounds_def strictly_inside_def constant_lnlike_def)

text \<open>
  The claim as worded fails on a bound: with the prior \<open>[0, 1]\<close> the parameter \<open>0\<close> lies
  inside the closed interval, \<^verbatim>\<open>lnlike\<close> would return the finite value \<open>0\<close>, and \<^verbatim>\<open>lnprob\<close>
  returns \<open>-inf\<close>.
\<close>

theorem lnprob_boundary_counterexample:
  "inside_bounds [0] [[0, 1]] \<and>
   \<not> returns_finite (lnprob (constant_lnlike (Fin 0)) [0] \<lparr>priors = [[0, 1]]\<rparr>)"
  by (simp add: inside_bounds_def returns_finite_def lnprob_def lnprior_def getitem_def)

text \<open>
  Strictly inside the bounds the value need not be finite. With the single correlated
  flux \<open>1\<close>, the error \<open>0\<close> and the model flux \<open>0\<close>, the summed variance is zero,
  \<^verbatim>\<open>inv_sigma_squared\<close> is \<open>inf\<close>, and \<^verbatim>\<open>chi_sq\<close> returns \<open>inf - inf\<close>.
\<close>

lemma lnprob_inside_bounds_nan:
  "strictly_inside [1 / 2, 0] [[0, 1], [- 10, 10]] \<and>
   lnprob (lnlike (constant_model ([], [0], []))) [1 / 2, 0]
     \<lparr>priors = [[0, 1], [- 10, 10]], fit_total_flux = False, fit_cphases = False,
      total_fluxes = [], total_fluxes_error = [], corr_fluxes = [1], corr_fluxes_error = [0],
      cphases = [], cphases_error = []\<rparr>
   = Inr \<lparr>lnprob_value = NaN, lnlike_calls = [[1 / 2, 0]]\<rparr>"
  by (simp add: strictly_inside_def lnprob_def lnprior_def getitem_def lnlike_def
      constant_model_def then_do_def chi_sq_def broadcast_def fsum_def fsub_def signed_inf_def)

subsection \<open>The chi-square term\<close>

lemma foldl_fadd_Fin:
  "foldl fadd (Fin a) (map (\<lambda>x. Fin (f x)) xs) = Fin (a + sum_list (map f xs))"
  by (induction xs arbitrary: a) (simp_all add: add.assoc)

lemma fsum_Fin: "fsum (map (\<lambda>x. Fin (f x)) xs) = Fin (sum_list (map f xs))"
  by (simp add: fsum_def foldl_fadd_Fin)

lemma sum_list_variances_nonneg:
  "0 \<le> sum_list (map (\<lambda>(e, m). e\<^sup>2 + m\<^sup>2 * exp (2 * lnf)) (ems :: (real \<times> real) list))"
  by (rule sum_list_nonneg) auto

text \<open>
  What the code computes for arrays of one shape whose summed variance \<open>S\<close> is positive:
  every residual is divided by the same \<open>S\<close>, the sum of the effective variances of all
  measurements.
\<close>

lemma chi_sq_pooled:
  assumes "length data_error = length data_model" "length real_data = length data_model"
    and "S = sum_list (map (\<lambda>(e, m). e\<^sup>2 + m\<^sup>2 * exp (2 * lnf)) (zip data_error data_model))"
    and "0 < S"
  shows "chi_sq real_data data_error data_model lnf =
         Inr (Fin (- 0.5 * sum_list (map (\<lambda>(r, m). (r - m)\<^sup>2 / S + ln S)
                                      (zip real_data data_model))))"
proof -
  have s: "fsum (map (\<lambda>(e, m). Fin (e\<^sup>2 + m\<^sup>2 * exp (2 * lnf))) (zip data_error data_model)) = Fin S"
  proof -
    have "(\<lambda>(e, m). Fin (e\<^sup>2 + m\<^sup>2 * exp (2 * lnf)))
          = (\<lambda>x. Fin ((\<lambda>(e, m). e\<^sup>2 + m\<^sup>2 * exp (2 * lnf)) x))"
      by (simp add: fun_eq_iff)
    then show ?thesis
      using fsum_Fin[of "\<lambda>(e, m). e\<^sup>2 + m\<^sup>2 * exp (2 * lnf)" "zip data_error data_model"]
        assms(3) by simp
  qed
  have inv: "fdiv (Fin 1) (Fin S) = Fin (1 / S)" using assms(4) by simp
  have "fsum (map (\<lambda>(r, m). fsub (fmul (Fin ((r - m)\<^sup>2)) (Fin (1 / S))) (flog (Fin (1 / S))))
                (zip real_data data_model))
        = Fin (sum_list (map (\<lambda>(r, m). (r - m)\<^sup>2 / S + ln S) (zip real_data data_model)))"
  proof -
    have "(\<lambda>(r, m). fsub (fmul (Fin ((r - m)\<^sup>2)) (Fin (1 / S))) (flog (Fin (1 / S))))
          = (\<lambda>x. Fin ((\<lambda>(r, m). (r - m)\<^sup>2 / S + ln S) x))"
      using assms(4) by (simp add: fun_eq_iff fsub_def ln_div)
    then show ?thesis
      using fsum_Fin[of "\<lambda>(r, m). (r - m)\<^sup>2 / S + ln S" "zip real_data data_model"]
      by simp
  qed
  note total = this
  have b1: "broadcast data_error data_model = Inr (zip data_error data_model)"
    using assms(1) by (simp add: broadcast_def)
  have b2: "broadcast real_data data_model = Inr (zip real_data data_model)"
    using assms(2) by (simp add: broadcast_def)
  have "chi_sq real_data data_error data_model lnf =
      Inr (fmul (Fin (- 0.5))
            (fsum (map (\<lambda>(r, m). fsub (fmul (Fin ((r - m)\<^sup>2)) (Fin (1 / S)))
                                    (flog (Fin (1 / S))))
                    (zip real_data data_model))))"
    unfolding chi_sq_def b1 b2
    by (simp only: sum.case s) (simp only: inv Let_def)
  then show ?thesis
    by (simp only: total) simp
qed

text \<open>For a single measurement the code and the specification's formula agree.\<close>

lemma chi_sq_single_measurement:
  assumes "0 < sigma_eff_squared e m lnf"
  shows "chi_sq [r] [e] [m] lnf = Inr (Fin (chi_sq_spec [r] [e] [m] lnf))"
  using assms chi_sq_pooled[of "[e]" "[m]" "[r]" "sigma_eff_squared e m lnf" lnf]
  by (simp add: chi_sq_spec_def sigma_eff_squared_def)

text \<open>
  C1. For two or more measurements the code does not compute the specification's term.
  Observed data \<open>[1, 2]\<close>, errors \<open>[1, 1]\<close>, model \<open>[0, 0]\<close> and \<open>lnf = 0\<close>: each effective
  variance is \<open>1\<close>, so the term is \<open>-0.5 \<cdot> (1 + 4) = -5/2\<close>; the code divides both
  residuals by the summed variance \<open>2\<close> and returns \<open>-5/4 - ln 2\<close>.
\<close>

theorem chi_sq_pools_variance:
  "chi_sq [1, 2] [1, 1] [0, 0] 0 = Inr (Fin (- 5 / 4 - ln 2)) \<and>
   chi_sq_spec [1, 2] [1, 1] [0, 0] 0 = - 5 / 2 \<and>
   chi_sq [1, 2] [1, 1] [0, 0] 0 \<noteq> Inr (Fin (chi_sq_spec [1, 2] [1, 1] [0, 0] 0))"
proof -
  have code: "chi_sq [1, 2] [1, 1] [0, 0] 0 = Inr (Fin (- 5 / 4 - ln 2))"
    by (simp add: chi_sq_def broadcast_def fsum_def fsub_def ln_div field_simps)
  have spec: "chi_sq_spec [1, 2] [1, 1] [0, 0] 0 = - 5 / 2"
    by (simp add: chi_sq_spec_def sigma_eff_squared_def)
  have "ln (2::real) \<le> 1"
    using ln_le_minus_one[of "2::real"] by simp
  then have "- 5 / 4 - ln 2 \<noteq> (- 5 / 2 :: real)" by simp
  with code spec show ?thesis by simp
qed

section \<open>Properties of \<^verbatim>\<open>utils.py\<close>\<close>

subsection \<open>Inner radius and inner temperature\<close>

lemma sigma_sb_pos: "0 < sigma_sb"
  by (simp add: sigma_sb_def)

lemma pc_in_m_pos: "0 < pc_in_m"
  by (simp add: pc_in_m_def)

lemma rad_in_mas_pos: "0 < rad_in_mas"
  by (simp add: rad_in_mas_def)

lemma parallax_round_trip:
  assumes "0 < d"
  shows "convert_parallax_to_orbital_radius
           (convert_orbital_radius_to_parallax (Fin r) (Fin d)) (Fin d) = Fin r"
proof -
  have "d * pc_in_m \<noteq> 0" "rad_in_mas \<noteq> 0"
    using assms pc_in_m_pos rad_in_mas_pos by simp_all
  then show ?thesis
    by (simp add: convert_parallax_to_orbital_radius_def convert_orbital_radius_to_parallax_def)
qed

lemma inner_radius_value:
  assumes "0 < T" "0 < d" "0 < L"
  shows "calculate_inner_radius (Fin T) (Fin d) (Fin L) =
         convert_orbital_radius_to_parallax (Fin (sqrt (L / (4 * pi * sigma_sb * T ^ 4)))) (Fin d)"
proof -
  have "0 < 4 * pi * sigma_sb * T ^ 4"
    using assms sigma_sb_pos by simp
  moreover have "sigma_sb \<noteq> 0" using sigma_sb_pos by simp
  ultimately show ?thesis
    using assms by (simp add: calculate_inner_radius_def)
qed

text \<open>
  The inner radius of a positive temperature is a positive, finite angle: the conversion
  is not degenerate.
\<close>

lemma inner_radius_positive:
  assumes "0 < T" "0 < d" "0 < L"
  shows "\<exists>r. 0 < r \<and> calculate_inner_radius (Fin T) (Fin d) (Fin L) = Fin r"
proof -
  have c: "0 < 4 * pi * sigma_sb * T ^ 4" using assms sigma_sb_pos by simp
  have "d * pc_in_m \<noteq> 0" using assms pc_in_m_pos by simp
  then have "calculate_inner_radius (Fin T) (Fin d) (Fin L) =
      Fin (rad_in_mas * (sqrt (L / (4 * pi * sigma_sb * T ^ 4)) / (d * pc_in_m)))"
    using assms by (simp add: inner_radius_value convert_orbital_radius_to_parallax_def)
  moreover have "0 < rad_in_mas * (sqrt (L / (4 * pi * sigma_sb * T ^ 4)) / (d * pc_in_m))"
    using assms c rad_in_mas_pos pc_in_m_pos by simp
  ultimately show ?thesis by blast
qed

text \<open>
  C3. For every positive temperature \<open>T\<close>, distance \<open>d\<close> and luminosity \<open>L\<close>, the inner
  temperature of the inner radius of \<open>T\<close> is \<open>T\<close>. The equality is exact in real
  arithmetic, which is what the two functions compute up to rounding.
\<close>

theorem inner_radius_temperature_round_trip:
  assumes "0 < T" "0 < d" "0 < L"
  shows "calculate_inner_temperature (calculate_inner_radius (Fin T) (Fin d) (Fin L))
           (Fin d) (Fin L) = Fin T"
proof -
  define c where "c = 4 * pi * sigma_sb"
  have c: "0 < c" using sigma_sb_pos by (simp add: c_def)
  define r where "r = sqrt (L / (c * T ^ 4))"
  have r: "0 < r" using assms c by (simp add: r_def)
  have r2: "r\<^sup>2 = L / (c * T ^ 4)" using assms c by (simp add: r_def)
  have "calculate_inner_temperature (calculate_inner_radius (Fin T) (Fin d) (Fin L))
          (Fin d) (Fin L)
        = fpow (fdiv (Fin L) (fmul (Fin c) (fpow (Fin r) 2))) (1 / 4)"
    using assms by (simp add: inner_radius_value calculate_inner_temperature_def
        parallax_round_trip c_def r_def)
  also have "fpow (Fin r) 2 = Fin (r\<^sup>2)" using r by simp
  also have "fmul (Fin c) (Fin (r\<^sup>2)) = Fin (L / T ^ 4)" using c by (simp add: r2)
  also have "fdiv (Fin L) (Fin (L / T ^ 4)) = Fin (T ^ 4)" using assms by simp
  also have "fpow (Fin (T ^ 4)) (1 / 4) = Fin T"
  proof -
    have "(T ^ 4) powr (1 / 4) = T"
      using assms by (simp add: powr_powr flip: powr_numeral)
    then show ?thesis using assms by simp
  qed
  finally show ?thesis .
qed

theorem inner_radius_temperature_round_trip_witness:
  "(0::real) < 1500 \<and> (0::real) < 140 \<and> (0::real) < 19 \<and>
   calculate_inner_temperature (calculate_inner_radius (Fin 1500) (Fin 140) (Fin 19))
     (Fin 140) (Fin 19) = Fin 1500"
  using inner_radius_temperature_round_trip[of 1500 140 19] by simp

subsection \<open>The temperature gradient at radius zero\<close>

lemma power_law_at_zero_positive_exponent:
  assumes "0 < q" "0 < r_in" "0 < T_in"
  shows "power_law_1d (Fin 0) (Fin T_in) (Fin r_in) q = PInf"
  using assms by (simp add: power_law_1d_def signed_inf_def)

lemma power_law_at_zero_negative_exponent:
  assumes "q < 0" "0 < r_in"
  shows "power_law_1d (Fin 0) (Fin T_in) (Fin r_in) q = Fin 0"
  using assms by (simp add: power_law_1d_def)

text \<open>
  C4, as the code has it. For an exponent \<open>q \<noteq> 0\<close>, a positive inner radius and a
  positive inner temperature, every entry of the result that belongs to radius \<open>0\<close> is
  exactly \<open>0\<close>: for \<open>q > 0\<close> the power law gives \<open>+inf\<close>, which is replaced by \<open>0\<close>; for
  \<open>q < 0\<close> it gives \<open>0\<close>.
\<close>

theorem temperature_gradient_zero_radius:
  assumes "q \<noteq> 0" "0 < r_in" "0 < T_in"
    and "i < length radius" "radius ! i = Fin 0"
  shows "temperature_gradient radius q (Fin r_in) (Fin T_in) ! i = Fin 0"
proof (cases "0 < q")
  case True
  then show ?thesis
    using assms by (simp add: temperature_gradient_def clamp_inf_def
        power_law_at_zero_positive_exponent)
next
  case False
  then have "q < 0" using assms(1) by simp
  then show ?thesis
    using assms by (simp add: temperature_gradient_def clamp_inf_def
        power_law_at_zero_negative_exponent)
qed

theorem temperature_gradient_zero_radius_witness:
  "(1 / 2 :: real) \<noteq> 0 \<and> (0::real) < 4 \<and> (0::real) < 1500 \<and>
   (0::nat) < length [Fin 0, Fin 4] \<and> [Fin 0, Fin 4] ! 0 = Fin 0 \<and>
   temperature_gradient [Fin 0, Fin 4] (1 / 2) (Fin 4) (Fin 1500) ! 0 = Fin 0"
  using temperature_gradient_zero_radius[of "1 / 2" 4 1500 0 "[Fin 0, Fin 4]"] by simp

text \<open>
  The claim as worded fails for the exponent \<open>q = 0\<close>: anything to the power zero is
  one, so the result at radius \<open>0\<close> is the inner temperature, here \<open>1500\<close>.
\<close>

theorem temperature_gradient_zero_exponent_counterexample:
  "temperature_gradient [Fin 0] 0 (Fin 1) (Fin 1500) = [Fin 1500] \<and>
   temperature_gradient [Fin 0] 0 (Fin 1) (Fin 1500) \<noteq> [Fin 0]"
  by (simp add: temperature_gradient_def clamp_inf_def power_law_1d_def)

text \<open>
  Only \<open>+inf\<close> is replaced. With an inner temperature of zero the power law gives
  \<open>0 \<cdot> inf\<close>, and the NaN stays in the result.
\<close>

lemma temperature_gradient_nan_stays:
  "temperature_gradient [Fin 0] (1 / 2) (Fin 1) (Fin 0) = [NaN]"
  by (simp add: temperature_gradient_def clamp_inf_def power_law_1d_def)

subsection \<open>The flux per pixel\<close>

lemma fmul_NaN_right: "fmul x NaN = NaN"
  by (cases x) simp_all

lemma optical_depth_gradient_nan:
  "optical_depth_gradient [Fin 0] (1 / 2) (Fin 1) (Fin 0) = [NaN]"
  by (simp add: optical_depth_gradient_def clamp_inf_def power_law_1d_def)

lemma temperature_gradient_centre_pixel:
  "temperature_gradient [Fin 0] (1 / 2) (Fin 1) (Fin 1500) = [Fin 0]"
  by (simp add: temperature_gradient_def clamp_inf_def power_law_1d_def signed_inf_def)

text \<open>
  The older \<^verbatim>\<open>_get_flux\<close> of the base class does replace them: after its last
  assignment every entry of the flux is finite.
\<close>

lemma zero_nan_inf_finite: "list_all isfinite (zero_nan_inf flux)"
proof -
  have "isfinite (if isinf (if isnan f then Fin 0 else f) then Fin 0
                  else (if isnan f then Fin 0 else f))" for f
    by (cases f) simp_all
  then show ?thesis
    by (induction flux) (simp_all add: zero_nan_inf_def)
qed

text \<open>
  C7. \<^verbatim>\<open>flux_per_pixel\<close> replaces nothing: a NaN in the optical depth is a NaN in the
  flux, whatever the wavelength, the pixel size and the value of the Planck function.
  Such an optical depth is what \<^verbatim>\<open>optical_depth_gradient\<close> returns for the centre pixel
  (radius \<open>0\<close>) when the inner optical depth is \<open>0\<close>; the temperature of that pixel is
  the zero that \<^verbatim>\<open>temperature_gradient\<close> puts there.
\<close>

theorem flux_per_pixel_propagates_nan:
  "flux_per_pixel plancks_law wavelength [Fin 0] [NaN] pixel_size = Inr [NaN] \<and>
   flux_per_pixel plancks_law wavelength
     (temperature_gradient [Fin 0] (1 / 2) (Fin 1) (Fin 1500))
     (optical_depth_gradient [Fin 0] (1 / 2) (Fin 1) (Fin 0)) pixel_size = Inr [NaN] \<and>
   \<not> list_all isfinite [NaN]"
  by (simp add: optical_depth_gradient_nan temperature_gradient_centre_pixel
      flux_per_pixel_def broadcast_def fsub_def fmul_NaN_right)

section \<open>Properties of \<^verbatim>\<open>readout.py\<close>\<close>

subsection \<open>The wavelength window\<close>

lemma set_where_from:
  "set (where_from i bs) = {i + k |k. k < length bs \<and> bs ! k}"
proof (induction bs arbitrary: i)
  case Nil
  then show ?case by simp
next
  case (Cons b bs)
  have split: "{i + k |k. k < length (b # bs) \<and> (b # bs) ! k}
               = (if b then {i} else {}) \<union> {Suc i + k |k. k < length bs \<and> bs ! k}"
  proof (intro set_eqI iffI)
    fix n assume "n \<in> {i + k |k. k < length (b # bs) \<and> (b # bs) ! k}"
    then obtain k where k: "n = i + k" "k < length (b # bs)" "(b # bs) ! k" by blast
    show "n \<in> (if b then {i} else {}) \<union> {Suc i + k |k. k < length bs \<and> bs ! k}"
    proof (cases k)
      case 0
      with k show ?thesis by simp
    next
      case (Suc k')
      with k have "n = Suc i + k'" "k' < length bs" "bs ! k'" by simp_all
      then show ?thesis by blast
    qed
  next
    fix n assume "n \<in> (if b then {i} else {}) \<union> {Suc i + k |k. k < length bs \<and> bs ! k}"
    then consider "b" "n = i" | k where "n = Suc i + k" "k < length bs" "bs ! k"
      by (auto split: if_splits)
    then show "n \<in> {i + k |k. k < length (b # bs) \<and> (b # bs) ! k}"
    proof cases
      case 1
      then have "n = i + 0" "0 < length (b # bs)" "(b # bs) ! 0" by simp_all
      then show ?thesis by blast
    next
      case 2
      then have "n = i + Suc k" "Suc k < length (b # bs)" "(b # bs) ! Suc k" by simp_all
      then show ?thesis by blast
    qed
  qed
  show ?case
    unfolding split using Cons.IH[of "Suc i"] by auto
qed

lemma where_from_lower_bound: "n \<in> set (where_from i bs) \<Longrightarrow> i \<le> n"
  by (auto simp: set_where_from)

lemma sorted_where_from: "sorted_wrt (<) (where_from i bs)"
proof (induction bs arbitrary: i)
  case Nil
  then show ?case by simp
next
  case (Cons b bs)
  have "\<forall>n\<in>set (where_from (Suc i) bs). i < n"
  proof
    fix n assume "n \<in> set (where_from (Suc i) bs)"
    then have "Suc i \<le> n" by (rule where_from_lower_bound)
    then show "i < n" by simp
  qed
  then show ?case using Cons.IH[of "Suc i"] by simp
qed

lemma set_np_where: "set (np_where flags) = {k. k < length flags \<and> flags ! k}"
  by (simp add: np_where_def set_where_from)

lemma get_wavelength_indices_single:
  "get_wavelength_indices sol [t] [w] =
     Inr [np_where (map (\<lambda>s. t - w / 2 < s \<and> s < t + w / 2) sol)]"
proof -
  have "map (\<lambda>(a, b). a \<and> b) (zip (map (\<lambda>s. t - w / 2 < s) sol) (map (\<lambda>s. s < t + w / 2) sol))
        = map (\<lambda>s. t - w / 2 < s \<and> s < t + w / 2) sol"
    by (induction sol) simp_all
  then show ?thesis
    by (simp add: get_wavelength_indices_def broadcast_def)
qed

text \<open>
  C8, as the code has it. For one target wavelength \<open>t\<close> and one window width \<open>w\<close>,
  \<^verbatim>\<open>get_wavelength_indices\<close> returns, in ascending order, exactly the indices of the
  wavelength solution whose value lies strictly between \<open>t - w/2\<close> and \<open>t + w/2\<close>: the
  interval is open, and a wavelength equal to an endpoint is left out.
\<close>

theorem wavelength_window_open:
  "\<exists>idx. get_wavelength_indices sol [t] [w] = Inr [idx] \<and>
         set idx = {i. i < length sol \<and> t - w / 2 < sol ! i \<and> sol ! i < t + w / 2} \<and>
         sorted_wrt (<) idx \<and>
         (\<forall>i. sol ! i = t - w / 2 \<or> sol ! i = t + w / 2 \<longrightarrow> i \<notin> set idx)"
proof -
  let ?idx = "np_where (map (\<lambda>s. t - w / 2 < s \<and> s < t + w / 2) sol)"
  have set_idx: "set ?idx = {i. i < length sol \<and> t - w / 2 < sol ! i \<and> sol ! i < t + w / 2}"
    by (auto simp: set_np_where)
  have "sorted_wrt (<) ?idx"
    by (simp add: np_where_def sorted_where_from)
  moreover have "\<forall>i. sol ! i = t - w / 2 \<or> sol ! i = t + w / 2 \<longrightarrow> i \<notin> set ?idx"
    unfolding set_idx by auto
  ultimately show ?thesis
    using get_wavelength_indices_single[of sol t w] set_idx by blast
qed

theorem wavelength_window_open_witness:
  "\<exists>idx. get_wavelength_indices [1, 3 / 2, 2] [3 / 2] [1] = Inr [idx] \<and>
         set idx = {i. i < length [1, 3 / 2, 2 :: real] \<and> 3 / 2 - 1 / 2 < [1, 3 / 2, 2 :: real] ! i
                       \<and> [1, 3 / 2, 2 :: real] ! i < 3 / 2 + 1 / 2} \<and>
         0 \<notin> set idx \<and> 2 \<notin> set idx"
proof -
  from wavelength_window_open[of "[1, 3 / 2, 2]" "3 / 2" 1]
  obtain idx where idx: "get_wavelength_indices [1, 3 / 2, 2] [3 / 2] [1] = Inr [idx]"
    "set idx = {i. i < length [1, 3 / 2, 2 :: real] \<and> 3 / 2 - 1 / 2 < [1, 3 / 2, 2 :: real] ! i
                   \<and> [1, 3 / 2, 2 :: real] ! i < 3 / 2 + 1 / 2}"
    "\<forall>i. [1, 3 / 2, 2 :: real] ! i = 3 / 2 - 1 / 2 \<or> [1, 3 / 2, 2 :: real] ! i = 3 / 2 + 1 / 2
         \<longrightarrow> i \<notin> set idx"
    by auto
  from idx(3)[rule_format, of 0] have "0 \<notin> set idx" by simp
  moreover from idx(3)[rule_format, of 2] have "2 \<notin> set idx" by simp
  ultimately show ?thesis using idx(1,2) by blast
qed

text \<open>
  The claim as worded fails at the endpoints: for the wavelength solution
  \<open>[1, 1.5, 2]\<close>, the target \<open>1.5\<close> and the width \<open>1\<close>, all three wavelengths lie in the
  closed interval \<open>[1, 2]\<close>, and the code returns the index \<open>1\<close> only.
\<close>

theorem wavelength_window_endpoint_counterexample:
  "get_wavelength_indices [1, 3 / 2, 2] [3 / 2] [1] = Inr [[1]] \<and>
   closed_window_indices [1, 3 / 2, 2] (3 / 2) 1 = [0, 1, 2] \<and>
   get_wavelength_indices [1, 3 / 2, 2] [3 / 2] [1]
     \<noteq> Inr [closed_window_indices [1, 3 / 2, 2] (3 / 2) 1]"
  by (simp add: get_wavelength_indices_def closed_window_indices_def broadcast_def np_where_def)

subsection \<open>The third leg of a closure-phase triangle\<close>

lemma np_add_columns:
  "np_add (map f table) (map g table) = Inr (map (\<lambda>r. f r + g r) table)"
proof -
  have "map (\<lambda>(x, y). x + y) (zip (map f table) (map g table)) = map (\<lambda>r. f r + g r) table"
    by (induction table) simp_all
  then show ?thesis by (simp add: np_add_def broadcast_def)
qed

lemma closures_phase_uvcoords_value:
  "get_closures_phase_uvcoords_split oi_t3 =
     Inr ([map u1coord oi_t3, map u2coord oi_t3, map (\<lambda>r. u1coord r + u2coord r) oi_t3],
          [map v1coord oi_t3, map v2coord oi_t3, map (\<lambda>r. v1coord r + v2coord r) oi_t3])"
  by (simp add: get_closures_phase_uvcoords_split_def get_data_def np_add_columns)

text \<open>
  C6. For every triangle \<open>i\<close> of the \<^verbatim>\<open>oi_t3\<close> table, with legs \<open>(u1, v1)\<close> and \<open>(u2, v2)\<close>,
  the third leg that \<^verbatim>\<open>get_closures_phase_uvcoords_split\<close> returns is \<open>(u1 + u2, v1 + v2)\<close>.
  It is the negated leg \<open>(-(u1 + u2), -(v1 + v2))\<close> only when both sums are zero.
\<close>

theorem closure_third_leg_is_sum:
  assumes "i < length oi_t3"
  shows "\<exists>us vs. get_closures_phase_uvcoords_split oi_t3 = Inr (us, vs) \<and>
           length us = 3 \<and> length vs = 3 \<and>
           us ! 0 ! i = u1coord (oi_t3 ! i) \<and> vs ! 0 ! i = v1coord (oi_t3 ! i) \<and>
           us ! 1 ! i = u2coord (oi_t3 ! i) \<and> vs ! 1 ! i = v2coord (oi_t3 ! i) \<and>
           us ! 2 ! i = u1coord (oi_t3 ! i) + u2coord (oi_t3 ! i) \<and>
           vs ! 2 ! i = v1coord (oi_t3 ! i) + v2coord (oi_t3 ! i) \<and>
           (us ! 2 ! i = - (u1coord (oi_t3 ! i) + u2coord (oi_t3 ! i)) \<and>
            vs ! 2 ! i = - (v1coord (oi_t3 ! i) + v2coord (oi_t3 ! i))
            \<longrightarrow> u1coord (oi_t3 ! i) + u2coord (oi_t3 ! i) = 0 \<and>
                v1coord (oi_t3 ! i) + v2coord (oi_t3 ! i) = 0)"
  using assms by (simp add: closures_phase_uvcoords_value)

theorem closure_third_leg_is_sum_witness:
  "\<exists>us vs. get_closures_phase_uvcoords_split
             [\<lparr>u1coord = 1, v1coord = 2, u2coord = 3, v2coord = 5\<rparr>] = Inr (us, vs) \<and>
           us ! 2 ! 0 = 4 \<and> vs ! 2 ! 0 = 7"
proof -
  from closure_third_leg_is_sum
    [of 0 "[\<lparr>u1coord = 1, v1coord = 2, u2coord = 3, v2coord = 5\<rparr>]"]
  obtain us vs where
    "get_closures_phase_uvcoords_split
       [\<lparr>u1coord = 1, v1coord = 2, u2coord = 3, v2coord = 5\<rparr>] = Inr (us, vs)"
    "us ! 2 ! 0 = 4" "vs ! 2 ! 0 = 7"
    by auto
  then show ?thesis by blast
qed

section \<open>Properties of \<^verbatim>\<open>model_base.py\<close>\<close>

subsection \<open>The constructor\<close>

lemma load_name_unbound:
  assumes "map_of local_names n = None" and "n \<notin> set module_globals"
  shows "load_name local_names n = Inl (NameError n)"
  using assms by (simp add: load_name_def)

lemma load_name_parameter:
  assumes "map_of local_names n = Some v"
  shows "load_name local_names n = Inr v"
  using assms by (simp add: load_name_def)

lemma then_do_Inr: "then_do (Inr v) f = f v"
  by (simp add: then_do_def)

lemma then_do_Inl: "then_do (Inl e) f = Inl e"
  by (simp add: then_do_def)

text \<open>
  C9. Whatever numbers it is given, \<^verbatim>\<open>Model.__init__\<close> raises \<^verbatim>\<open>NameError\<close> for the name
  \<^verbatim>\<open>luminostiy_star\<close>, which is neither a parameter nor a global of the module; the
  statements before it succeed. So the constructor never returns an instance.
\<close>

theorem Model_init_raises_NameError:
  "Model_init fov n t_sub t_eff lum d wl sampling = Inl (NameError ''luminostiy_star'') \<and>
   (\<forall>m. Model_init fov n t_sub t_eff lum d wl sampling \<noteq> Inr m)"
proof -
  define local_names where "local_names =
    [(''self'', Object),
     (''field_of_view'', Number fov),
     (''image_size'', Number (of_int n)),
     (''sublimation_temperature'', Number t_sub),
     (''effective_temperature'', Number t_eff),
     (''luminosity_star'', Number lum),
     (''distance'', Number d),
     (''wavelength'', Number wl),
     (''pixel_sampling'',
        case sampling of None \<Rightarrow> NoneValue | Some k \<Rightarrow> Number (of_int k))]"
  have fov: "then_do (load_name local_names ''field_of_view'') times_unit = Inr fov"
    by (simp add: local_names_def load_name_parameter then_do_Inr times_unit_def)
  have size: "then_do (load_name local_names ''image_size'') times_unit = Inr (of_int n)"
    by (simp add: local_names_def load_name_parameter then_do_Inr times_unit_def)
  have sampling: "\<exists>v. load_name local_names ''pixel_sampling'' = Inr v"
    by (simp add: local_names_def load_name_parameter)
  have t_sub: "then_do (load_name local_names ''sublimation_temperature'') times_unit = Inr t_sub"
    by (simp add: local_names_def load_name_parameter then_do_Inr times_unit_def)
  have t_eff: "then_do (load_name local_names ''effective_temperature'') times_unit = Inr t_eff"
    by (simp add: local_names_def load_name_parameter then_do_Inr times_unit_def)
  have "map_of local_names ''luminostiy_star'' = None"
    by (simp add: local_names_def)
  moreover have "''luminostiy_star'' \<notin> set module_globals"
    by (simp add: module_globals_def)
  ultimately have typo: "load_name local_names ''luminostiy_star'' = Inl (NameError ''luminostiy_star'')"
    by (rule load_name_unbound)
  from sampling obtain v where v: "load_name local_names ''pixel_sampling'' = Inr v" ..
  have "Model_init fov n t_sub t_eff lum d wl sampling = Inl (NameError ''luminostiy_star'')"
    unfolding Model_init_def Let_def local_names_def[symmetric]
    by (simp only: fov size v t_sub t_eff typo then_do_Inr then_do_Inl)
  then show ?thesis by simp
qed

theorem Model_init_raises_NameError_witness:
  "Model_init 50 128 1500 7900 140 19 8 None = Inl (NameError ''luminostiy_star'')"
  using Model_init_raises_NameError[of 50 128 1500 7900 140 19 8 None] by simp

subsection \<open>The inclination check of \<^verbatim>\<open>set_grid\<close>\<close>

text \<open>
  With a list of two inclination parameters \<^verbatim>\<open>set_grid\<close> never returns: past the
  axis-ratio check, a positive position angle raises at the comparison with \<open>180\<close>, and any
  other reaches the second conversion of a quantity that is already in radians.
\<close>

lemma set_grid_inclined_never_returns:
  "set_grid self (Some [axis_ratio, pos_angle]) \<noteq> Inr r"
  by (auto simp: set_grid_def then_do_def Let_def number_times_deg_def quantity_greater_def
      quantity_less_def quantity_times_deg_def split: sum.splits if_splits)

text \<open>
  On an instance whose grid axis can be built, every axis ratio of at least one together
  with any positive position angle, the valid ones included, raises \<^verbatim>\<open>ValueError\<close>.
\<close>

lemma set_grid_rejects_positive_angle:
  assumes "0 \<le> self_pixel_sampling self" and "self_mas_size self = Some m"
    and "1 \<le> axis_ratio" and "0 < pos_angle"
  shows "set_grid self (Some [axis_ratio, pos_angle]) = Inl ValueError"
proof -
  have "0 < pos_angle * pi / 180" using assms(4) by simp
  then show ?thesis
    using assms(1-3)
    by (simp add: set_grid_def then_do_def linspace_open_def pixel_scaling_def Let_def
        number_times_deg_def quantity_greater_def quantity_less_def)
qed

text \<open>
  C5. The axis ratio \<open>1\<close> and the position angle \<open>45\<close> degrees are valid inclination
  parameters, and \<^verbatim>\<open>set_grid\<close> raises \<^verbatim>\<open>ValueError\<close> for them. The instance is one on which
  the grid axis itself can be built.
\<close>

theorem set_grid_rejects_valid_inclination:
  "set_grid example_model (Some [1, 45]) = Inl ValueError \<and>
   (\<exists>r. set_grid example_model None = Inr r)"
proof -
  have "set_grid example_model (Some [1, 45]) = Inl ValueError"
    by (rule set_grid_rejects_positive_angle[where m = 50])
       (simp_all add: example_model_def)
  moreover have "\<exists>r. set_grid example_model None = Inr r"
    by (simp add: set_grid_def example_model_def then_do_def linspace_open_def
        pixel_scaling_def Let_def)
  ultimately show ?thesis by simp
qed

end
